theory Spec2Isabelle
  imports Complex_Main
begin

section \<open>Status cache: values, reducer and status lookup\<close>

text \<open>
  The provider component \<open>ImageLoader\<close> keeps one JavaScript object, \<open>cache\<close>, in a
  \<open>useReducer\<close> cell. Its keys are image URLs; a stored value is either the promise
  returned by \<open>fetchImg\<close> or a boolean. A promise is identified by the position of its
  \<open>fetchImg\<close> call in the log of fetches.

  A JavaScript object literal inherits from \<open>Object.prototype\<close>, so the read
  \<open>cache[src]\<close> sees, besides the object's own properties, the members of that
  prototype. The inherited members are functions (and, for \<open>__proto__\<close>, the prototype
  object itself); none of them is \<open>undefined\<close>, a boolean, or has a \<open>then\<close> method.
  They are the value \<open>Inherited\<close> below.
\<close>

type_synonym promise = nat

datatype jsval = Undefined | Promise promise | Boolean bool | Inherited

type_synonym cache = "string \<rightharpoonup> jsval"

datatype Status = IDLE | PENDING | LOADED | ERROR

datatype action =
    willLoad string promise
  | didLoad string
  | didCatch string
  | otherAction

datatype error =
    Unreachable_state
  | Missing_context
  | Failed_to_load string
  | ReferenceError
  | TypeError

text \<open>The reducer of \<open>useReducer\<close>; its initial state is the empty object.\<close>

fun reducer :: "cache \<Rightarrow> action \<Rightarrow> cache" where
  "reducer state (willLoad src p) = state(src \<mapsto> Promise p)"
| "reducer state (didLoad src) = state(src \<mapsto> Boolean True)"
| "reducer state (didCatch src) = state(src \<mapsto> Boolean False)"
| "reducer state otherAction = state"

definition initialCache :: cache where
  "initialCache = Map.empty"

text \<open>The property names every object inherits from \<open>Object.prototype\<close>.\<close>

definition Object_prototype :: "string list" where
  "Object_prototype =
     [''constructor'', ''__proto__'', ''hasOwnProperty'', ''isPrototypeOf'',
      ''propertyIsEnumerable'', ''toLocaleString'', ''toString'', ''valueOf'',
      ''__defineGetter__'', ''__defineSetter__'', ''__lookupGetter__'',
      ''__lookupSetter__'']"

text \<open>\<open>getValue(src)\<close> is \<open>cache[src]\<close>: an own property first, then the prototype.\<close>

definition getValue :: "cache \<Rightarrow> string \<Rightarrow> jsval" where
  "getValue cache src =
     (case cache src of
        Some v \<Rightarrow> v
      | None \<Rightarrow> if src \<in> set Object_prototype then Inherited else Undefined)"

text \<open>\<open>isPromise(val)\<close> is \<open>val && typeof val.then === 'function'\<close>.\<close>

fun isPromise :: "jsval \<Rightarrow> bool" where
  "isPromise (Promise p) = True"
| "isPromise Undefined = False"
| "isPromise (Boolean b) = False"
| "isPromise Inherited = False"

definition getStatus :: "cache \<Rightarrow> string \<Rightarrow> error + Status" where
  "getStatus cache src =
     (let v = getValue cache src in
      if v = Undefined then Inr IDLE
      else if isPromise v then Inr PENDING
      else if v = Boolean True then Inr LOADED
      else if v = Boolean False then Inr ERROR
      else Inl Unreachable_state)"


section \<open>DOM nodes, promises and the provider's state\<close>

text \<open>
  Of a DOM node the code inspects whether it is an \<open>HTMLImageElement\<close> and whether its
  \<open>parentNode\<close> is an \<open>HTMLElement\<close> (whose style height it then sets).
\<close>

record node =
  nodeId :: nat
  isHTMLImageElement :: bool
  parentHTMLElement :: "nat option"

text \<open>
  The promise of \<open>fetchImg\<close> resolves with the loaded image (of which only \<open>height\<close> is
  read) or rejects.
\<close>

datatype settlement = Resolved nat | Rejected

text \<open>
  \<open>debounce(fn, delay)\<close> closes over one mutable \<open>timeoutID\<close>. A pending timer is its due
  time together with the arguments its callback will pass to \<open>fn\<close>.
\<close>

type_synonym 'a timer = "(nat \<times> 'a) option"

text \<open>A call of the debounced function: \<open>clearTimeout(timeoutID)\<close>, then \<open>setTimeout\<close>.\<close>

definition debounce_call :: "nat \<Rightarrow> nat \<Rightarrow> 'a \<Rightarrow> 'a timer \<Rightarrow> 'a timer" where
  "debounce_call delay now args timeoutID = Some (now + delay, args)"

text \<open>The arguments with which \<open>fn\<close> runs if the timer has expired at time \<open>now\<close>.\<close>

definition timer_due :: "nat \<Rightarrow> 'a timer \<Rightarrow> 'a option" where
  "timer_due now timeoutID =
     (case timeoutID of
        None \<Rightarrow> None
      | Some (due, args) \<Rightarrow> if due \<le> now then Some args else None)"

text \<open>
  \<open>imgLoaderApi\<close> is recomputed by \<open>useMemo\<close> whenever \<open>cache\<close> changes. Each instance
  closes over the cache of the render that created it (\<open>snapshot\<close>) and owns the timer of
  its own \<open>debounce(loadImage, 16)\<close>.
\<close>

record api =
  snapshot :: cache
  timeoutID :: "(string \<times> node) timer"

definition imgLoaderApi :: "cache \<Rightarrow> api" where
  "imgLoaderApi cache = \<lparr>snapshot = cache, timeoutID = None\<rparr>"

definition loadImage_delay :: nat where
  "loadImage_delay = 16"

text \<open>
  The state around the coordinator: the reducer's current state, every api instance
  created so far (the last one is the current context value), the log of \<open>fetchImg\<close>
  calls, the promises already settled, the \<open>loadImage\<close> activations suspended at their
  \<open>await\<close>, and the style heights written to parent elements.
\<close>

record provider =
  store :: cache
  apis :: "api list"
  fetches :: "string list"
  settled :: "promise \<rightharpoonup> settlement"
  waiting :: "(jsval \<times> string \<times> node) list"
  parentHeight :: "nat \<rightharpoonup> nat"

definition mount :: provider where
  "mount = \<lparr>store = initialCache, apis = [imgLoaderApi initialCache], fetches = [],
            settled = Map.empty, waiting = [], parentHeight = Map.empty\<rparr>"

text \<open>\<open>fetchImg(src)\<close> starts the download and returns a new promise.\<close>

definition fetchImg :: "string \<Rightarrow> provider \<Rightarrow> promise \<times> provider" where
  "fetchImg src pv = (length (fetches pv), pv\<lparr>fetches := fetches pv @ [src]\<rparr>)"

text \<open>
  \<open>dispatch(action)\<close>: the reducer runs; for the three known actions it returns a new
  object, the provider renders again and \<open>useMemo\<close> builds a new api over the new cache.
\<close>

definition dispatch :: "action \<Rightarrow> provider \<Rightarrow> provider" where
  "dispatch a pv =
     (if a = otherAction then pv
      else pv\<lparr>store := reducer (store pv) a,
              apis := apis pv @ [imgLoaderApi (reducer (store pv) a)]\<rparr>)"

section \<open>The load coordinator\<close>

text \<open>
  \<open>loadImage\<close> is an async function. Its first part runs up to the \<open>await\<close>; it reads the
  status from the cache captured by its api, not from the reducer's current state.
  A throw of \<open>getStatus\<close> rejects the promise of the async function.
\<close>

datatype suspended = Return bool | Await jsval

definition loadImage_begin :: "cache \<Rightarrow> string \<Rightarrow> provider \<Rightarrow> error + suspended \<times> provider" where
  "loadImage_begin cache src pv =
     (case getStatus cache src of
        Inl e \<Rightarrow> Inl e
      | Inr status \<Rightarrow>
          if status = IDLE then
            (case fetchImg src pv of
               (p, pv1) \<Rightarrow> Inr (Await (Promise p), dispatch (willLoad src p) pv1))
          else if status = PENDING then Inr (Await (getValue cache src), pv)
          else if status = LOADED then Inr (Return True, pv)
          else Inr (Return False, pv))"

text \<open>The second part: the \<open>try\<close> block after the \<open>await\<close>, or the \<open>catch\<close> block.\<close>

fun loadImage_resume :: "string \<Rightarrow> node \<Rightarrow> settlement \<Rightarrow> provider \<Rightarrow> bool \<times> provider" where
  "loadImage_resume src n (Resolved height) pv =
     (True,
      dispatch (didLoad src)
        (case parentHTMLElement n of
           None \<Rightarrow> pv
         | Some parent \<Rightarrow> pv\<lparr>parentHeight := (parentHeight pv)(parent \<mapsto> height)\<rparr>))"
| "loadImage_resume src n Rejected pv = (False, dispatch (didCatch src) pv)"


section \<open>The event loop around the coordinator\<close>

text \<open>
  An activation suspended at \<open>await promise\<close> continues when the promise settles; if the
  promise has settled already it continues at once. \<open>loadImage\<close> only awaits values for
  which \<open>isPromise\<close> holds, so the last case does not occur.
\<close>

definition suspend :: "jsval \<Rightarrow> string \<Rightarrow> node \<Rightarrow> provider \<Rightarrow> provider" where
  "suspend v src n pv =
     (case v of
        Promise p \<Rightarrow>
          (case settled pv p of
             Some s \<Rightarrow> snd (loadImage_resume src n s pv)
           | None \<Rightarrow> pv\<lparr>waiting := waiting pv @ [(v, src, n)]\<rparr>)
      | _ \<Rightarrow> pv)"

text \<open>The timer callback of a debounced \<open>loadImage\<close>: \<open>fn(...args)\<close> over the api's cache.\<close>

definition start :: "cache \<Rightarrow> string \<Rightarrow> node \<Rightarrow> provider \<Rightarrow> provider" where
  "start cache src n pv =
     (case loadImage_begin cache src pv of
        Inl e \<Rightarrow> pv
      | Inr (Return b, pv1) \<Rightarrow> pv1
      | Inr (Await v, pv1) \<Rightarrow> suspend v src n pv1)"

text \<open>The timer of the api at position \<open>i\<close> fires if it has expired.\<close>

definition fire :: "nat \<Rightarrow> nat \<Rightarrow> provider \<Rightarrow> provider" where
  "fire now i pv =
     (case timer_due now (timeoutID (apis pv ! i)) of
        None \<Rightarrow> pv
      | Some (src, n) \<Rightarrow>
          start (snapshot (apis pv ! i)) src n
            (pv\<lparr>apis := (apis pv)[i := (apis pv ! i)\<lparr>timeoutID := None\<rparr>]\<rparr>))"

text \<open>
  Time advances to \<open>now\<close>: the expired timers fire, those of older apis first (a consumer
  calls the api of its latest render, so an older api's timer was set earlier).
\<close>

definition elapse :: "nat \<Rightarrow> provider \<Rightarrow> provider" where
  "elapse now pv = fold (fire now) [0..<length (apis pv)] pv"

text \<open>A consumer calls the \<open>loadImage\<close> of the current context value.\<close>

definition invoke :: "nat \<Rightarrow> string \<Rightarrow> node \<Rightarrow> provider \<Rightarrow> provider" where
  "invoke now src n pv =
     (case apis pv of
        [] \<Rightarrow> pv
      | _ # _ \<Rightarrow>
          pv\<lparr>apis := (apis pv)[length (apis pv) - 1 :=
                 (last (apis pv))\<lparr>timeoutID :=
                    debounce_call loadImage_delay now (src, n) (timeoutID (last (apis pv)))\<rparr>]\<rparr>)"

text \<open>
  The platform settles the promise of a fetch (\<open>img.onload\<close> or \<open>img.onerror\<close>), once;
  the activations awaiting it continue in the order in which they suspended.
\<close>

definition settle :: "promise \<Rightarrow> settlement \<Rightarrow> provider \<Rightarrow> provider" where
  "settle p s pv =
     (if p < length (fetches pv) \<and> settled pv p = None then
        fold (\<lambda>(v, src, n) q. if v = Promise p then snd (loadImage_resume src n s q) else q)
          (waiting pv)
          (pv\<lparr>settled := (settled pv)(p \<mapsto> s),
              waiting := filter (\<lambda>(v, src, n). v \<noteq> Promise p) (waiting pv)\<rparr>)
      else pv)"

datatype event =
    Invoke nat string node
  | Elapse nat
  | Settle promise settlement

fun step :: "event \<Rightarrow> provider \<Rightarrow> provider" where
  "step (Invoke now src n) pv = invoke now src n (elapse now pv)"
| "step (Elapse now) pv = elapse now pv"
| "step (Settle p s) pv = settle p s pv"

definition run :: "event list \<Rightarrow> provider \<Rightarrow> provider" where
  "run events pv = fold step events pv"

section \<open>The hook and the component\<close>

record ImgLoaderConfig =
  lazy :: bool
  imgNode :: "node option"
  placeholder :: "string option"

definition DEFAULT_PLACEHOLDER :: string where
  "DEFAULT_PLACEHOLDER = ''data:image/gif;base64,R0lGODlhAQABAAD/ACwAAAAAAQABAAACADs=''"

definition useImgLoaderContext :: "api option \<Rightarrow> error + api" where
  "useImgLoaderContext ctx = (case ctx of None \<Rightarrow> Inl Missing_context | Some a \<Rightarrow> Inr a)"

text \<open>The value \<open>useImgLoader\<close> returns to the rendering component, or the error it throws.\<close>

definition useImgLoader :: "api option \<Rightarrow> string \<Rightarrow> ImgLoaderConfig \<Rightarrow> error + string" where
  "useImgLoader ctx src config =
     (case useImgLoaderContext ctx of
        Inl e \<Rightarrow> Inl e
      | Inr a \<Rightarrow>
          (case getStatus (snapshot a) src of
             Inl e \<Rightarrow> Inl e
           | Inr status \<Rightarrow>
               if status = LOADED then Inr src
               else if status = ERROR then Inl (Failed_to_load src)
               else Inr (case placeholder config of
                           None \<Rightarrow> DEFAULT_PLACEHOLDER
                         | Some ph \<Rightarrow> ph)))"

text \<open>
  What the platform offers: \<open>supportsIntersectionObserver\<close> tests \<open>window\<close> for both
  \<open>IntersectionObserver\<close> and \<open>IntersectionObserverEntry\<close>; \<open>__DEV__\<close> is the build flag.
\<close>

record env =
  window_defined :: bool
  IntersectionObserver_in_window :: bool
  IntersectionObserverEntry_in_window :: bool
  DEV :: bool

definition supportsIntersectionObserver :: "env \<Rightarrow> bool" where
  "supportsIntersectionObserver e =
     (window_defined e \<and> IntersectionObserver_in_window e
        \<and> IntersectionObserverEntry_in_window e)"

text \<open>What the effect of \<open>useImgLoader\<close> and the observer's callback do, in order.\<close>

datatype effect_op =
    console_error
  | loadImage_call string node
  | observe node
  | unobserve node

text \<open>
  \<open>getObserver()\<close>: \<open>_observer.current\<close> is never assigned, so every call evaluates
  \<open>new IntersectionObserver(handleIntersect, CONFIG)\<close>, a \<open>ReferenceError\<close> where the
  global is not defined.
\<close>

definition getObserver :: "env \<Rightarrow> error + unit" where
  "getObserver e =
     (if window_defined e \<and> IntersectionObserver_in_window e then Inr ()
      else Inl ReferenceError)"

text \<open>The body of the effect: the operations performed and the error thrown, if any.\<close>

definition useImgLoader_effect ::
    "env \<Rightarrow> Status \<Rightarrow> string \<Rightarrow> ImgLoaderConfig \<Rightarrow> effect_op list \<times> error option" where
  "useImgLoader_effect e status src config =
     (case imgNode config of
        None \<Rightarrow> ([], None)
      | Some n \<Rightarrow>
          if status = IDLE \<and> isHTMLImageElement n then
            if lazy config then
              (let fallback =
                     (if \<not> supportsIntersectionObserver e
                      then (if DEV e then [console_error] else []) @ [loadImage_call src n]
                      else [])
               in case getObserver e of
                    Inl err \<Rightarrow> (fallback, Some err)
                  | Inr u \<Rightarrow> (fallback @ [observe n], None))
            else ([loadImage_call src n], None)
          else ([], None))"

record entry =
  target :: node
  intersectionRatio :: real

definition handleIntersect :: "string \<Rightarrow> entry list \<Rightarrow> error + effect_op list" where
  "handleIntersect src entries =
     (case entries of
        [] \<Rightarrow> Inl TypeError
      | en # rest \<Rightarrow>
          Inr (if intersectionRatio en > 0 \<and> isHTMLImageElement (target en)
               then [loadImage_call src (target en), unobserve (target en)]
               else []))"

text \<open>
  One use of the hook on one element. \<open>observers\<close> lists every \<open>IntersectionObserver\<close>
  the effect has constructed, each with the \<open>src\<close> its callback closes over and the
  targets it observes; \<open>observer\<close> is the variable of that name in the latest run of the
  effect; \<open>loadImage_calls\<close> are the calls made to the context's \<open>loadImage\<close>.
\<close>

record hook =
  observers :: "(string \<times> node list) list"
  observer :: "nat option"
  loadImage_calls :: "(string \<times> node) list"

definition new_hook :: hook where
  "new_hook = \<lparr>observers = [], observer = None, loadImage_calls = []\<rparr>"

text \<open>
  A run of the effect. \<open>getObserver()\<close> constructs a new observer every time, since
  \<open>_observer.current\<close> stays \<open>null\<close>.
\<close>

fun effect_perform :: "string \<Rightarrow> effect_op \<Rightarrow> hook \<Rightarrow> hook" where
  "effect_perform src console_error hk = hk"
| "effect_perform src (loadImage_call s n) hk =
     hk\<lparr>loadImage_calls := loadImage_calls hk @ [(s, n)]\<rparr>"
| "effect_perform src (observe n) hk =
     hk\<lparr>observers := observers hk @ [(src, [n])],
        observer := Some (length (observers hk))\<rparr>"
| "effect_perform src (unobserve n) hk = hk"

definition effect_run :: "env \<Rightarrow> Status \<Rightarrow> string \<Rightarrow> ImgLoaderConfig \<Rightarrow> hook \<Rightarrow> hook" where
  "effect_run e status src config hk =
     fold (effect_perform src) (fst (useImgLoader_effect e status src config))
       (hk\<lparr>observer := None\<rparr>)"

text \<open>
  The cleanup the effect returns: \<open>observer.unobserve(imgNode)\<close> if the run made an
  observer and the image is lazy. (A run makes an observer only for an image element,
  which is an \<open>HTMLElement\<close>.)
\<close>

definition effect_cleanup :: "ImgLoaderConfig \<Rightarrow> hook \<Rightarrow> hook" where
  "effect_cleanup config hk =
     (case observer hk of
        None \<Rightarrow> hk
      | Some i \<Rightarrow>
          (case imgNode config of
             None \<Rightarrow> hk
           | Some n \<Rightarrow>
               if lazy config then
                 hk\<lparr>observers := (observers hk)
                       [i := (fst (observers hk ! i), removeAll n (snd (observers hk ! i)))]\<rparr>
               else hk))"

text \<open>
  The platform calls back the observer at position \<open>i\<close>, with a non-empty list of entries,
  all for targets that it observes at that moment.
\<close>

fun callback_perform :: "nat \<Rightarrow> effect_op \<Rightarrow> hook \<Rightarrow> hook" where
  "callback_perform i console_error hk = hk"
| "callback_perform i (loadImage_call s n) hk =
     hk\<lparr>loadImage_calls := loadImage_calls hk @ [(s, n)]\<rparr>"
| "callback_perform i (observe n) hk = hk"
| "callback_perform i (unobserve n) hk =
     hk\<lparr>observers := (observers hk)
           [i := (fst (observers hk ! i), removeAll n (snd (observers hk ! i)))]\<rparr>"

definition intersect :: "nat \<Rightarrow> entry list \<Rightarrow> hook \<Rightarrow> hook" where
  "intersect i entries hk =
     (if i < length (observers hk) \<and> entries \<noteq> []
         \<and> list_all (\<lambda>en. target en \<in> set (snd (observers hk ! i))) entries
      then
        (case handleIntersect (fst (observers hk ! i)) entries of
           Inl err \<Rightarrow> hk
         | Inr ops \<Rightarrow> fold (callback_perform i) ops hk)
      else hk)"

text \<open>\<open>SimpleImg\<close>: the \<open>src\<close> attribute it gives to the \<open>img\<close> element.\<close>

datatype importance = auto | low

record SimpleImgProps =
  props_src :: "string option"
  props_importance :: "importance option"
  props_placeholder :: "string option"

definition SimpleImg_imgSrc :: "api option \<Rightarrow> SimpleImgProps \<Rightarrow> node option \<Rightarrow> error + string" where
  "SimpleImg_imgSrc ctx props nodeState =
     useImgLoader ctx
       (case props_src props of None \<Rightarrow> [] | Some s \<Rightarrow> s)
       \<lparr>lazy = ((case props_importance props of None \<Rightarrow> auto | Some i \<Rightarrow> i) = low),
        imgNode = (case nodeState of
                     None \<Rightarrow> None
                   | Some n \<Rightarrow> if isHTMLImageElement n then Some n else None),
        placeholder = Some (case props_placeholder props of
                              None \<Rightarrow> DEFAULT_PLACEHOLDER
                            | Some ph \<Rightarrow> ph)\<rparr>"


section \<open>Reachable caches and example data\<close>

text \<open>The caches the reducer can produce from the initial empty object.\<close>

inductive reachable :: "cache \<Rightarrow> bool" where
  init: "reachable initialCache"
| step: "reachable c \<Longrightarrow> reachable (reducer c a)"

text \<open>Two image elements, each inside an \<open>HTMLElement\<close> parent.\<close>

definition imgA :: node where
  "imgA = \<lparr>nodeId = 1, isHTMLImageElement = True, parentHTMLElement = Some 10\<rparr>"

definition imgB :: node where
  "imgB = \<lparr>nodeId = 2, isHTMLImageElement = True, parentHTMLElement = Some 20\<rparr>"

text \<open>
  Two eager images, \<open>x.png\<close> on \<open>imgA\<close> and \<open>y.png\<close> on \<open>imgB\<close>, mounted together at
  time 0 (times in milliseconds). Both effects call the debounced \<open>loadImage\<close> of the
  first api; the second call replaces the first. At 16 the timer fires: \<open>y.png\<close> is
  fetched (promise 0) and \<open>willLoad\<close> produces a second api; the effect of \<open>imgA\<close> runs
  again (its \<open>loadImage\<close> dependency changed, its status is still idle) and calls the
  second api. At 30 promise 0 resolves, \<open>didLoad\<close> produces a third api, and the effect
  of \<open>imgA\<close> calls that one too; the timer of the second api is still pending, since the
  effect's cleanup does not clear it. At 32 the second api's timer fires and fetches
  \<open>x.png\<close> (promise 1), which resolves at 40.
\<close>

definition two_eager_images :: "event list" where
  "two_eager_images =
     [Invoke 0 ''x.png'' imgA, Invoke 0 ''y.png'' imgB, Elapse 16,
      Invoke 16 ''x.png'' imgA, Settle 0 (Resolved 100),
      Invoke 30 ''x.png'' imgA, Elapse 32, Settle 1 (Resolved 50)]"

text \<open>One eager image whose fetch has resolved with height 150.\<close>

definition one_image_loaded :: provider where
  "one_image_loaded =
     run [Invoke 0 ''b.png'' imgA, Elapse 16, Settle 0 (Resolved 150)] mount"

text \<open>
  The run \<open>two_eager_images\<close> up to the third call for \<open>x.png\<close>: the calls at 16 and at
  30 are 14 ms apart, and go to the second and to the third api.
\<close>

definition calls_14ms_apart :: "event list" where
  "calls_14ms_apart =
     [Invoke 0 ''x.png'' imgA, Invoke 0 ''y.png'' imgB, Elapse 16,
      Invoke 16 ''x.png'' imgA, Settle 0 (Resolved 100),
      Invoke 30 ''x.png'' imgA]"

text \<open>
  The same run up to time 32, when the second api's timer has fetched \<open>x.png\<close>
  (promise 1) and the load has not settled.
\<close>

definition x_fetch_in_flight :: "event list" where
  "x_fetch_in_flight = calls_14ms_apart @ [Elapse 32]"

text \<open>
  An eager image \<open>y.png\<close> on \<open>imgB\<close>, fetched at 16, and a lazy image \<open>a.png\<close> on
  \<open>imgA\<close>, mounted after that, in a browser with \<open>IntersectionObserver\<close>. At 20 \<open>imgA\<close>
  is visible and the observer's callback calls \<open>loadImage\<close> for \<open>a.png\<close>; at 30
  \<open>y.png\<close> resolves.
\<close>

definition modern_browser :: env where
  "modern_browser =
     \<lparr>window_defined = True, IntersectionObserver_in_window = True,
      IntersectionObserverEntry_in_window = True, DEV = False\<rparr>"

definition lazy_imgA :: ImgLoaderConfig where
  "lazy_imgA = \<lparr>lazy = True, imgNode = Some imgA, placeholder = None\<rparr>"

definition imgA_visible :: "entry list" where
  "imgA_visible = [\<lparr>target = imgA, intersectionRatio = 1\<rparr>]"

definition lazy_image_at_16 :: "event list" where
  "lazy_image_at_16 = [Invoke 0 ''y.png'' imgB, Elapse 16]"

definition lazy_image_at_30 :: "event list" where
  "lazy_image_at_30 =
     lazy_image_at_16 @ [Invoke 20 ''a.png'' imgA, Settle 0 (Resolved 100)]"

text \<open>A browser without \<open>IntersectionObserver\<close>, running a development build.\<close>

definition old_browser :: env where
  "old_browser =
     \<lparr>window_defined = True, IntersectionObserver_in_window = False,
      IntersectionObserverEntry_in_window = False, DEV = True\<rparr>"

lemmas provider_defs =
  run_def mount_def elapse_def invoke_def fire_def start_def settle_def suspend_def
  loadImage_begin_def getStatus_def getValue_def dispatch_def fetchImg_def imgLoaderApi_def
  initialCache_def debounce_call_def timer_due_def loadImage_delay_def Object_prototype_def

section \<open>Properties of the status cache\<close>

lemma getStatus_classification:
  "getStatus cache src =
     (case cache src of
        None \<Rightarrow> if src \<in> set Object_prototype then Inl Unreachable_state else Inr IDLE
      | Some Undefined \<Rightarrow> Inr IDLE
      | Some (Promise p) \<Rightarrow> Inr PENDING
      | Some (Boolean b) \<Rightarrow> Inr (if b then LOADED else ERROR)
      | Some Inherited \<Rightarrow> Inl Unreachable_state)"
  by (auto simp: getStatus_def getValue_def split: option.splits jsval.splits)

lemma getStatus_PENDING_iff:
  "getStatus cache src = Inr PENDING \<longleftrightarrow> (\<exists>p. getValue cache src = Promise p)"
  by (cases "getValue cache src") (auto simp: getStatus_def Let_def)

lemma reachable_values:
  "reachable c \<Longrightarrow> c src = Some v \<Longrightarrow> (\<exists>p. v = Promise p) \<or> (\<exists>b. v = Boolean b)"
proof (induction arbitrary: src v rule: reachable.induct)
  case init
  then show ?case by (simp add: initialCache_def)
next
  case (step c a)
  then show ?case by (cases a) (auto split: if_splits)
qed

text \<open>
  On a reachable cache \<open>getStatus\<close> throws exactly for the URLs that have no entry and
  name a member of \<open>Object.prototype\<close>.
\<close>

lemma getStatus_throws_iff:
  assumes "reachable c"
  shows "getStatus c src = Inl e \<longleftrightarrow>
           e = Unreachable_state \<and> c src = None \<and> src \<in> set Object_prototype"
proof (cases "c src")
  case None
  then show ?thesis by (auto simp: getStatus_def getValue_def)
next
  case (Some v)
  with reachable_values [OF assms Some] show ?thesis
    by (auto simp: getStatus_def getValue_def)
qed

text \<open>No action of the reducer takes a URL back to idle.\<close>

lemma reducer_never_back_to_idle:
  assumes "getStatus c src = Inr st" and "st \<noteq> IDLE"
  shows "getStatus (reducer c a) src \<noteq> Inr IDLE"
  using assms
  by (cases a) (auto simp: getStatus_def getValue_def Let_def split: option.splits if_splits)

section \<open>Properties of the coordinator\<close>

lemma fetches_dispatch [simp]: "fetches (dispatch a pv) = fetches pv"
  by (simp add: dispatch_def)

lemma fetches_resume [simp]: "fetches (snd (loadImage_resume src n s pv)) = fetches pv"
  by (cases s) (auto split: option.splits)

lemma fetches_suspend [simp]: "fetches (suspend v src n pv) = fetches pv"
  by (auto simp: suspend_def split: jsval.splits option.splits)

lemma loadImage_begin_pending:
  "getValue cache src = Promise p \<Longrightarrow>
     loadImage_begin cache src pv = Inr (Await (Promise p), pv)"
  by (simp add: loadImage_begin_def getStatus_def)

lemma start_pending_fetches:
  "getValue cache src = Promise p \<Longrightarrow> fetches (start cache src n pv) = fetches pv"
  by (simp add: start_def loadImage_begin_pending)

text \<open>
  An activation over a cache in which the URL is idle issues one fetch and stores its
  promise, so that the api built over the new cache reports the URL as pending.
\<close>

lemma loadImage_begin_idle:
  assumes "getStatus cache src = Inr IDLE"
  shows "\<exists>pv1. loadImage_begin cache src pv = Inr (Await (Promise (length (fetches pv))), pv1)
           \<and> fetches pv1 = fetches pv @ [src]
           \<and> getValue (store pv1) src = Promise (length (fetches pv))"
  using assms
  by (simp add: loadImage_begin_def fetchImg_def dispatch_def getValue_def)

text \<open>
  An activation over a cache in which the URL is loaded or failed returns at once and
  leaves the provider as it is.
\<close>

lemma loadImage_begin_settled:
  assumes "getStatus cache src = Inr st" and "st = LOADED \<or> st = ERROR"
  shows "loadImage_begin cache src pv = Inr (Return (st = LOADED), pv)"
  using assms by (auto simp: loadImage_begin_def)

text \<open>What \<open>loadImage\<close> awaits is always a promise.\<close>

lemma loadImage_awaits_promise:
  assumes "loadImage_begin cache src pv = Inr (Await v, pv1)"
  shows "isPromise v"
proof (cases "getStatus cache src")
  case (Inl e)
  with assms show ?thesis by (simp add: loadImage_begin_def)
next
  case (Inr st)
  show ?thesis
  proof (cases st)
    case IDLE
    with Inr assms show ?thesis by (auto simp: loadImage_begin_def fetchImg_def)
  next
    case PENDING
    with Inr obtain p where p: "getValue cache src = Promise p"
      by (auto simp: getStatus_PENDING_iff)
    from assms have "v = Promise p"
      by (simp add: loadImage_begin_pending [OF p])
    then show ?thesis by simp
  next
    case LOADED
    with Inr assms show ?thesis by (simp add: loadImage_begin_def)
  next
    case ERROR
    with Inr assms show ?thesis by (simp add: loadImage_begin_def)
  qed
qed

section \<open>Properties of the effect\<close>

text \<open>
  Without the \<open>IntersectionObserver\<close> global, the effect of a lazy, idle image calls
  \<open>loadImage\<close> and then throws from \<open>getObserver\<close>.
\<close>

lemma effect_without_IntersectionObserver:
  assumes "\<not> IntersectionObserver_in_window e" and "isHTMLImageElement n"
    and "imgNode config = Some n" and "lazy config"
  shows "useImgLoader_effect e IDLE src config =
           ((if DEV e then [console_error] else []) @ [loadImage_call src n],
            Some ReferenceError)"
  using assms
  by (simp add: useImgLoader_effect_def supportsIntersectionObserver_def getObserver_def)


section \<open>The claims\<close>

lemma loaded_store: "store one_image_loaded = [''b.png'' \<mapsto> Boolean True]"
  by (simp add: one_image_loaded_def imgA_def provider_defs)

text \<open>
  Claim C1. The claim says that a \<open>loadImage\<close> made while a fetch for the URL is in
  flight awaits that fetch and starts no other. In the run \<open>x_fetch_in_flight\<close> the fetch
  of \<open>x.png\<close> (promise 1) is in flight at time 32 and the status is \<open>PENDING\<close>. The
  call made at 30 is still waiting in the timer of the third api, whose cache was
  captured before the fetch; at 46 it runs, reads idle, and fetches \<open>x.png\<close> again: the
  later caller awaits promise 2, not promise 1.
\<close>

theorem stale_api_refetches_while_in_flight:
  "getStatus (store (run x_fetch_in_flight mount)) ''x.png'' = Inr PENDING
   \<and> settled (run x_fetch_in_flight mount) 1 = None
   \<and> fetches (run x_fetch_in_flight mount) = [''y.png'', ''x.png'']
   \<and> fetches (run (x_fetch_in_flight @ [Elapse 46]) mount)
        = [''y.png'', ''x.png'', ''x.png'']
   \<and> map fst (waiting (run (x_fetch_in_flight @ [Elapse 46]) mount))
        = [Promise 1, Promise 2]"
  by (simp add: x_fetch_in_flight_def calls_14ms_apart_def imgA_def imgB_def provider_defs
      upt_rec)

text \<open>
  Claim C2. The claim says that a URL's status only moves forward and that a loaded URL
  stays loaded. In the run \<open>two_eager_images\<close> the URL \<open>x.png\<close> is loaded at time 40;
  at 46 the timer of the third api fires, whose cache was captured at 30, before
  \<open>x.png\<close> was first fetched. Its \<open>loadImage\<close> reads idle, fetches \<open>x.png\<close> a second
  time and dispatches \<open>willLoad\<close>, which takes the URL from loaded back to pending.
\<close>

theorem stale_api_takes_loaded_back_to_pending:
  "getStatus (store (run two_eager_images mount)) ''x.png'' = Inr LOADED
   \<and> getStatus (store (run (two_eager_images @ [Elapse 46]) mount)) ''x.png'' = Inr PENDING
   \<and> fetches (run (two_eager_images @ [Elapse 46]) mount) = [''y.png'', ''x.png'', ''x.png'']"
  by (simp add: two_eager_images_def imgA_def imgB_def provider_defs upt_rec)

text \<open>
  Claim C3. The claim says that \<open>getStatus\<close> returns idle for every URL without an entry.
  For the URL \<open>constructor\<close> the read \<open>cache[src]\<close> of the empty cache yields the
  function inherited from \<open>Object.prototype\<close>, and \<open>getStatus\<close> throws; so does the hook
  that renders an image with that URL. (Lemma \<open>getStatus_classification\<close> gives the
  result of \<open>getStatus\<close> in every case.)
\<close>

theorem getStatus_of_inherited_name_throws:
  "getStatus initialCache ''constructor'' = Inl Unreachable_state
   \<and> useImgLoader (Some (imgLoaderApi initialCache)) ''constructor''
        \<lparr>lazy = False, imgNode = None, placeholder = None\<rparr> = Inl Unreachable_state"
  by (simp add: useImgLoader_def useImgLoaderContext_def provider_defs)

text \<open>
  Claim C4. The claim says that calls of the context's \<open>loadImage\<close> within the debounce
  window lead to one executed load, with the arguments of the last call. Two calls of one
  api do: of the two calls at time 0 only the second is left in the timer. But every
  cache change builds a new api with a \<open>debounce\<close> of its own. In the run
  \<open>calls_14ms_apart\<close> the calls for \<open>x.png\<close> at 16 and at 30 lie 14 ms apart, on either
  side of a cache change; each sits in the timer of its own api, and both loads are
  executed, at 32 and at 46.
\<close>

theorem calls_within_window_both_execute:
  "map timeoutID (apis (run [Invoke 0 ''x.png'' imgA, Invoke 0 ''y.png'' imgB] mount))
     = [Some (16, (''y.png'', imgB))]
   \<and> map timeoutID (apis (run calls_14ms_apart mount))
     = [None, Some (32, (''x.png'', imgA)), Some (46, (''x.png'', imgA))]
   \<and> fetches (run calls_14ms_apart mount) = [''y.png'']
   \<and> fetches (run (calls_14ms_apart @ [Elapse 46]) mount)
     = [''y.png'', ''x.png'', ''x.png'']"
  by (simp add: calls_14ms_apart_def imgA_def imgB_def provider_defs upt_rec)

text \<open>
  Claim C5. Under a provider, \<open>useImgLoader\<close> returns the URL itself when the status is
  \<open>LOADED\<close>, throws the error \<open>Failed to load img\<close> when it is \<open>ERROR\<close>, and returns the
  placeholder when it is \<open>IDLE\<close> or \<open>PENDING\<close>.
\<close>

theorem useImgLoader_by_status:
  assumes "getStatus (snapshot a) src = Inr st"
  shows "useImgLoader (Some a) src config =
          (if st = LOADED then Inr src
           else if st = ERROR then Inl (Failed_to_load src)
           else Inr (case placeholder config of
                       None \<Rightarrow> DEFAULT_PLACEHOLDER
                     | Some ph \<Rightarrow> ph))"
  using assms by (simp add: useImgLoader_def useImgLoaderContext_def)

theorem useImgLoader_by_status_witness:
  "useImgLoader
     (Some (imgLoaderApi
        (reducer (reducer initialCache (willLoad ''c.png'' 0)) (didCatch ''c.png''))))
     ''c.png'' \<lparr>lazy = False, imgNode = Some imgA, placeholder = Some ''spinner.gif''\<rparr>
   = Inl (Failed_to_load ''c.png'')"
proof -
  have h: "getStatus
     (snapshot (imgLoaderApi
        (reducer (reducer initialCache (willLoad ''c.png'' 0)) (didCatch ''c.png''))))
     ''c.png'' = Inr ERROR"
    by (simp add: imgLoaderApi_def initialCache_def getStatus_def getValue_def)
  from useImgLoader_by_status [OF h] show ?thesis by simp
qed

text \<open>
  Claim C6. The claim says that, without \<open>IntersectionObserver\<close>, a lazy idle image is
  loaded eagerly and needs no observer. In a browser without it the effect does call
  \<open>loadImage\<close>, but then goes on to \<open>getObserver()\<close>, which throws a \<open>ReferenceError\<close>
  out of the effect. The branch for eager images calls \<open>loadImage\<close> and nothing else.
\<close>

theorem lazy_fallback_throws_from_getObserver:
  "useImgLoader_effect old_browser IDLE ''a.png''
      \<lparr>lazy = True, imgNode = Some imgA, placeholder = None\<rparr>
    = ([console_error, loadImage_call ''a.png'' imgA], Some ReferenceError)
   \<and> useImgLoader_effect old_browser IDLE ''a.png''
      \<lparr>lazy = False, imgNode = Some imgA, placeholder = None\<rparr>
    = ([loadImage_call ''a.png'' imgA], None)"
  by (simp add: useImgLoader_effect_def supportsIntersectionObserver_def getObserver_def
      old_browser_def imgA_def)

text \<open>
  Claim C7. The claim says that the load is triggered at most once per observed element.
  In the run \<open>lazy_image_at_30\<close> the observer made when \<open>a.png\<close> is mounted reports
  \<open>imgA\<close> visible at 20: its callback calls \<open>loadImage\<close> and stops observing. At 30 the
  cache changes while \<open>a.png\<close> is still idle (its debounced load is due at 36), so the
  context's \<open>loadImage\<close> changes and the effect runs again; \<open>getObserver()\<close> constructs
  a second observer, which observes \<open>imgA\<close>, reports it visible, and calls \<open>loadImage\<close>
  for the same element again.
\<close>

theorem effect_rerun_triggers_load_again:
  "getStatus (store (run lazy_image_at_16 mount)) ''a.png'' = Inr IDLE
   \<and> getStatus (store (run lazy_image_at_30 mount)) ''a.png'' = Inr IDLE
   \<and> length (apis (run lazy_image_at_16 mount)) = 2
   \<and> length (apis (run lazy_image_at_30 mount)) = 3
   \<and> intersect 1 imgA_visible
        (effect_run modern_browser IDLE ''a.png'' lazy_imgA
          (effect_cleanup lazy_imgA
            (intersect 0 imgA_visible
              (effect_run modern_browser IDLE ''a.png'' lazy_imgA new_hook))))
      = \<lparr>observers = [(''a.png'', []), (''a.png'', [])], observer = Some 1,
         loadImage_calls = [(''a.png'', imgA), (''a.png'', imgA)]\<rparr>"
  by (simp add: lazy_image_at_30_def lazy_image_at_16_def imgA_def imgB_def provider_defs
      upt_rec intersect_def effect_run_def effect_cleanup_def new_hook_def
      useImgLoader_effect_def supportsIntersectionObserver_def getObserver_def
      handleIntersect_def modern_browser_def lazy_imgA_def imgA_visible_def)

text \<open>
  Claim C8. The claim says that \<open>loadImage\<close> on a URL whose record is settled changes
  nothing and starts no fetch. After the run \<open>two_eager_images\<close> the record of \<open>x.png\<close>
  is loaded, and the timer of the third api still holds a call for \<open>x.png\<close>. That
  api's \<open>loadImage\<close> reads its own, older cache: it fetches again (promise 2) and
  overwrites the record with the pending promise.
\<close>

theorem stale_api_loadImage_on_loaded_url_refetches:
  "getStatus (store (run two_eager_images mount)) ''x.png'' = Inr LOADED
   \<and> timeoutID (apis (run two_eager_images mount) ! 2) = Some (46, (''x.png'', imgA))
   \<and> map_sum id (\<lambda>(r, pv1). (r, store pv1 ''x.png'', fetches pv1))
        (loadImage_begin (snapshot (apis (run two_eager_images mount) ! 2)) ''x.png''
           (run two_eager_images mount))
      = Inr (Await (Promise 2), Some (Promise 2), [''y.png'', ''x.png'', ''x.png''])"
  by (simp add: two_eager_images_def imgA_def imgB_def provider_defs upt_rec)

text \<open>
  Claim C9. The claim says that the \<open>Unreachable state\<close> branch of \<open>getStatus\<close> cannot be
  reached from a cache produced by the three transitions. The cache that holds one
  loaded image is such a cache, and \<open>getStatus\<close> reaches the branch there for the URL
  \<open>toString\<close>. (Lemma \<open>getStatus_throws_iff\<close> shows that the inherited names without
  an entry are the only URLs for which this happens.)
\<close>

theorem unreachable_state_is_reached:
  "reachable (store one_image_loaded)
   \<and> getStatus (store one_image_loaded) ''toString'' = Inl Unreachable_state"
proof -
  have "store one_image_loaded
          = reducer (reducer initialCache (willLoad ''b.png'' 0)) (didLoad ''b.png'')"
    by (simp add: loaded_store initialCache_def)
  moreover have
    "reachable (reducer (reducer initialCache (willLoad ''b.png'' 0)) (didLoad ''b.png''))"
    by (intro reachable.intros)
  moreover have
    "getStatus (reducer (reducer initialCache (willLoad ''b.png'' 0)) (didLoad ''b.png''))
       ''toString'' = Inl Unreachable_state"
    by (simp add: provider_defs)
  ultimately show ?thesis by simp
qed

text \<open>
  Claim C10. Called without a placeholder, \<open>useImgLoader\<close> and \<open>SimpleImg\<close> show the
  built-in 1x1 transparent GIF data URI as long as the status is \<open>IDLE\<close> or \<open>PENDING\<close>.
\<close>

theorem default_placeholder_until_loaded:
  assumes "getStatus (snapshot a) src = Inr st" and "st = IDLE \<or> st = PENDING"
  shows "useImgLoader (Some a) src \<lparr>lazy = l, imgNode = nd, placeholder = None\<rparr>
           = Inr ''data:image/gif;base64,R0lGODlhAQABAAD/ACwAAAAAAQABAAACADs=''
       \<and> SimpleImg_imgSrc (Some a)
           \<lparr>props_src = Some src, props_importance = imp, props_placeholder = None\<rparr> ns
           = Inr ''data:image/gif;base64,R0lGODlhAQABAAD/ACwAAAAAAQABAAACADs=''"
  using assms
  by (auto simp: useImgLoader_def useImgLoaderContext_def SimpleImg_imgSrc_def
      DEFAULT_PLACEHOLDER_def)

theorem default_placeholder_until_loaded_witness:
  "useImgLoader (Some (imgLoaderApi initialCache)) ''a.png''
     \<lparr>lazy = True, imgNode = Some imgA, placeholder = None\<rparr>
     = Inr ''data:image/gif;base64,R0lGODlhAQABAAD/ACwAAAAAAQABAAACADs=''
   \<and> SimpleImg_imgSrc (Some (imgLoaderApi initialCache))
       \<lparr>props_src = Some ''a.png'', props_importance = Some low, props_placeholder = None\<rparr>
       (Some imgA)
     = Inr ''data:image/gif;base64,R0lGODlhAQABAAD/ACwAAAAAAQABAAACADs=''"
proof -
  have h: "getStatus (snapshot (imgLoaderApi initialCache)) ''a.png'' = Inr IDLE"
    by (simp add: imgLoaderApi_def initialCache_def getStatus_def getValue_def
        Object_prototype_def)
  from default_placeholder_until_loaded [OF h, of True "Some imgA" "Some low" "Some imgA"]
  show ?thesis by simp
qed

end
